theory Spec2Isabelle
  imports Complex_Main "HOL-Library.Multiset" "HOL-Library.Sublist" "HOL-Library.Log_Nat"
begin

section \<open>Data model\<close>

text \<open>
  A task as the application stores it (the object literal built by \<open>addTask\<close> and
  \<open>toggleTask\<close>). Optional fields are options: \<open>None\<close> stands for a property that is
  missing, \<open>undefined\<close>, \<open>null\<close> or the empty string, all of which are falsy in the
  source's tests \<open>t.deadline\<close>, \<open>t.completedAt\<close> and \<open>a.estimatedTime\<close>.

  Points in time are the millisecond time stamps that \<open>new Date(s).getTime()\<close> yields
  for the stored ISO string; parsing the string is not modelled, so a stored deadline is
  a valid date. Priority is the stored string, whatever it is.
\<close>

record task =
  ident :: string
  title :: string
  priority :: "string option"
  deadline :: "int option"
  estimatedTime :: "rat option"
  completed :: bool
  createdAt :: int
  completedAt :: "int option"

section \<open>Numbers\<close>

text \<open>
  The values a script number takes in the ranking: a finite number, the two infinities
  and NaN. In the ranking finite arithmetic is exact (rationals), so the rounding of
  double precision is not modelled there; division by zero, the infinities and NaN
  behave as in the source's arithmetic. Signed zero is not distinguished: the only zero
  divisor in the ranking is the sum \<open>x + 1\<close> with \<open>x = -1\<close>, which is the
  positive zero.
\<close>

datatype jsnum = Fin rat | PInf | NInf | NaN

fun jneg :: "jsnum \<Rightarrow> jsnum" where
  "jneg (Fin a) = Fin (- a)"
| "jneg PInf = NInf"
| "jneg NInf = PInf"
| "jneg NaN = NaN"

fun jadd :: "jsnum \<Rightarrow> jsnum \<Rightarrow> jsnum" where
  "jadd (Fin a) (Fin b) = Fin (a + b)"
| "jadd NaN y = NaN"
| "jadd x NaN = NaN"
| "jadd PInf NInf = NaN"
| "jadd NInf PInf = NaN"
| "jadd PInf y = PInf"
| "jadd x PInf = PInf"
| "jadd NInf y = NInf"
| "jadd x NInf = NInf"

definition jsub :: "jsnum \<Rightarrow> jsnum \<Rightarrow> jsnum" where
  "jsub x y = jadd x (jneg y)"

definition inf_of_sign :: "rat \<Rightarrow> jsnum" where
  "inf_of_sign s = (if s = 0 then NaN else if 0 < s then PInf else NInf)"

fun jmul :: "jsnum \<Rightarrow> jsnum \<Rightarrow> jsnum" where
  "jmul (Fin a) (Fin b) = Fin (a * b)"
| "jmul NaN y = NaN"
| "jmul x NaN = NaN"
| "jmul PInf (Fin b) = inf_of_sign b"
| "jmul NInf (Fin b) = inf_of_sign (- b)"
| "jmul (Fin a) PInf = inf_of_sign a"
| "jmul (Fin a) NInf = inf_of_sign (- a)"
| "jmul PInf PInf = PInf"
| "jmul PInf NInf = NInf"
| "jmul NInf PInf = NInf"
| "jmul NInf NInf = PInf"

fun jdiv :: "jsnum \<Rightarrow> jsnum \<Rightarrow> jsnum" where
  "jdiv (Fin a) (Fin b) = (if b = 0 then inf_of_sign a else Fin (a / b))"
| "jdiv NaN y = NaN"
| "jdiv x NaN = NaN"
| "jdiv (Fin a) PInf = Fin 0"
| "jdiv (Fin a) NInf = Fin 0"
| "jdiv PInf (Fin b) = (if 0 \<le> b then PInf else NInf)"
| "jdiv NInf (Fin b) = (if 0 \<le> b then NInf else PInf)"
| "jdiv PInf y = NaN"
| "jdiv NInf y = NaN"

text \<open>The comparisons \<open><\<close> and \<open>\<le>\<close> of numbers; both are false when NaN is involved.\<close>

fun jlt :: "jsnum \<Rightarrow> jsnum \<Rightarrow> bool" where
  "jlt (Fin a) (Fin b) = (a < b)"
| "jlt NaN y = False"
| "jlt x NaN = False"
| "jlt x NInf = False"
| "jlt PInf y = False"
| "jlt NInf y = True"
| "jlt x PInf = True"

fun jle :: "jsnum \<Rightarrow> jsnum \<Rightarrow> bool" where
  "jle (Fin a) (Fin b) = (a \<le> b)"
| "jle NaN y = False"
| "jle x NaN = False"
| "jle NInf y = True"
| "jle x PInf = True"
| "jle x NInf = False"
| "jle PInf y = False"

subsection \<open>Double precision\<close>

text \<open>
  The completion rate is computed in double precision. \<open>fl x\<close> is the double nearest
  to \<open>x\<close>: \<open>x\<close> is scaled to a significand of 53 bits, rounded to the nearest
  integer, halves to the even one, and scaled back. \<open>binade x\<close> is the exponent
  \<open>k\<close> with \<open>2^k \<le> x < 2^(k+1)\<close> for positive \<open>x\<close>. The exponent range is not
  limited; the quantities rounded here lie between \<open>2^-32\<close> and 100. A division or a
  product of two doubles is the rounding of the exact result.
\<close>

definition roundeven :: "rat \<Rightarrow> int" where
  "roundeven m =
     (let f = \<lfloor>m\<rfloor>; r = m - of_int f
      in if r < 1 / 2 then f else if 1 / 2 < r then f + 1 else if even f then f else f + 1)"

definition binade :: "rat \<Rightarrow> int" where
  "binade x = (if 1 \<le> x then bitlen \<lfloor>x\<rfloor> - 1 else - bitlen (\<lceil>1 / x\<rceil> - 1))"

definition fl :: "rat \<Rightarrow> rat" where
  "fl x = (if x = 0 then 0
           else of_int (roundeven (x / 2 powi (binade \<bar>x\<bar> - 52))) * 2 powi (binade \<bar>x\<bar> - 52))"

section \<open>Array sort\<close>

text \<open>
  \<open>Array.prototype.sort\<close> with a comparison function \<open>cmp\<close>: the sort is stable, and
  a comparison result that is NaN counts as zero. \<open>x\<close> is placed after \<open>y\<close> only
  when \<open>cmp x y > 0\<close>. The model inserts the elements from the right, each in front of
  the first element it need not follow, which keeps equal elements in input order.
  When the comparison function is not consistent (a NaN score compares as equal to
  every score) the language leaves the order to the implementation; the result is a
  permutation in any case, and the statements about order below are made for scores that
  are not NaN.
\<close>

fun insert_by :: "('a \<Rightarrow> 'a \<Rightarrow> jsnum) \<Rightarrow> 'a \<Rightarrow> 'a list \<Rightarrow> 'a list" where
  "insert_by cmp x [] = [x]"
| "insert_by cmp x (y # ys) =
     (if jlt (Fin 0) (cmp x y) then y # insert_by cmp x ys else x # y # ys)"

definition sort_by :: "('a \<Rightarrow> 'a \<Rightarrow> jsnum) \<Rightarrow> 'a list \<Rightarrow> 'a list" where
  "sort_by cmp xs = foldr (insert_by cmp) xs []"

section \<open>AIEngine.suggestOrder\<close>

text \<open>
  The table \<open>priorityScore\<close> and the lookup \<open>priorityScore[p] || 1\<close>. The table is
  an object literal, so a key that is not its own is looked up in \<open>Object.prototype\<close>:
  for the names in \<open>protoKeys\<close> the lookup yields an inherited function (for
  \<open>__proto__\<close> the prototype object), which is truthy and becomes NaN in the product
  \<open>pa * 0.4\<close>. Any other key, and a missing priority (the keys \<open>undefined\<close> and
  \<open>null\<close>), yield \<open>undefined\<close> and the weight 1.
\<close>

definition priorityScore :: "(string \<times> rat) list" where
  "priorityScore = [(''high'', 3), (''medium'', 2), (''low'', 1)]"

definition protoKeys :: "string list" where
  "protoKeys =
     [''constructor'', ''hasOwnProperty'', ''isPrototypeOf'', ''propertyIsEnumerable'',
      ''toLocaleString'', ''toString'', ''valueOf'', ''__proto__'', ''__defineGetter__'',
      ''__defineSetter__'', ''__lookupGetter__'', ''__lookupSetter__'']"

definition priorityWeight :: "string option \<Rightarrow> jsnum" where
  "priorityWeight p =
     (case p of
        None \<Rightarrow> Fin 1
      | Some k \<Rightarrow>
          (case map_of priorityScore k of
             Some w \<Rightarrow> if w = 0 then Fin 1 else Fin w
           | None \<Rightarrow> if k \<in> set protoKeys then NaN else Fin 1))"

text \<open>\<open>deadlineA\<close>: the deadline's time stamp, or \<open>Infinity\<close> without a deadline.\<close>

definition deadlineTime :: "task \<Rightarrow> jsnum" where
  "deadlineTime a = (case deadline a of Some d \<Rightarrow> Fin (of_int d) | None \<Rightarrow> PInf)"

text \<open>\<open>urgencyA\<close>, with \<open>now\<close> the value of \<open>Date.now()\<close>.\<close>

definition urgency :: "int \<Rightarrow> task \<Rightarrow> jsnum" where
  "urgency now a =
     (if deadlineTime a = PInf then Fin 0
      else jdiv (Fin 1)
             (jadd (jdiv (jsub (deadlineTime a) (Fin (of_int now))) (Fin 86400000)) (Fin 1)))"

text \<open>The term \<open>a.estimatedTime ? 1 / a.estimatedTime : 0\<close>: zero is falsy.\<close>

definition efficiency :: "task \<Rightarrow> jsnum" where
  "efficiency a =
     (case estimatedTime a of
        None \<Rightarrow> Fin 0
      | Some e \<Rightarrow> if e \<noteq> 0 then jdiv (Fin 1) (Fin e) else Fin 0)"

text \<open>\<open>scoreA\<close>.\<close>

definition score :: "int \<Rightarrow> task \<Rightarrow> jsnum" where
  "score now a =
     jadd (jadd (jmul (priorityWeight (priority a)) (Fin (2 / 5)))
                (jmul (urgency now a) (Fin (2 / 5))))
          (jmul (efficiency a) (Fin (1 / 5)))"

text \<open>The comparison function returns \<open>scoreB - scoreA\<close>.\<close>

definition compareTasks :: "int \<Rightarrow> task \<Rightarrow> task \<Rightarrow> jsnum" where
  "compareTasks now a b = jsub (score now b) (score now a)"

text \<open>\<open>[...tasks].sort(...)\<close>: a sorted copy of the argument.\<close>

definition suggestOrder :: "int \<Rightarrow> task list \<Rightarrow> task list" where
  "suggestOrder now tasks = sort_by (compareTasks now) tasks"

text \<open>
  The same call on arrays held by reference. A store is the list of the arrays
  allocated so far, an array reference is its index. The spread \<open>[...tasks]\<close>
  allocates a fresh array with the elements of \<open>tasks\<close>; \<open>sort\<close> then sorts that
  fresh array in place and returns its reference.
\<close>

type_synonym store = "task list list"

definition suggestOrder_st :: "int \<Rightarrow> nat \<Rightarrow> store \<Rightarrow> nat \<times> store" where
  "suggestOrder_st now tasks st =
     (let r = length st;
          st1 = st @ [st ! tasks];
          st2 = st1[r := sort_by (compareTasks now) (st1 ! r)]
      in (r, st2))"

text \<open>The callers' argument: \<open>tasks.filter(t => !t.completed)\<close>.\<close>

definition pending :: "task list \<Rightarrow> task list" where
  "pending tasks = filter (\<lambda>t. \<not> completed t) tasks"

section \<open>Text\<close>

text \<open>
  Decimal rendering of a count inside a template string, and the rounding of
  \<open>Math.round\<close> (to the nearest integer, halves upwards). Characters outside ASCII are
  written as their UTF-8 bytes.
\<close>

fun show_nat :: "nat \<Rightarrow> string" where
  "show_nat n =
     (if n < 10 then [char_of (48 + n)]
      else show_nat (n div 10) @ [char_of (48 + n mod 10)])"

definition show_int :: "int \<Rightarrow> string" where
  "show_int i = (if i < 0 then ''-'' @ show_nat (nat (- i)) else show_nat (nat i))"

definition Math_round :: "rat \<Rightarrow> int" where
  "Math_round x = \<lfloor>x + 1 / 2\<rfloor>"

text \<open>
  \<open>(completed / total) * 100\<close> in double precision: the two counts are array lengths
  and exact, the quotient is rounded, and so is its product with 100.
\<close>

definition percent :: "nat \<Rightarrow> nat \<Rightarrow> rat" where
  "percent c t = fl (fl (of_nat c / of_nat t) * 100)"

definition quote :: string where
  "quote = [CHR 0x22]"

section \<open>AIEngine.getProductivityTip\<close>

text \<open>
  \<open>localDay\<close> is the runtime's local calendar: it maps a time stamp to the number of
  its local calendar day, counted from 1 January 1970. Two dates have the same
  \<open>toDateString()\<close> exactly when they fall on the same local day. \<open>now\<close> is the value
  of \<open>new Date()\<close>.
\<close>

definition overdueCount :: "int \<Rightarrow> task list \<Rightarrow> nat" where
  "overdueCount now tasks =
     length (filter (\<lambda>t. (case deadline t of None \<Rightarrow> False | Some d \<Rightarrow> d < now) \<and> \<not> completed t) tasks)"

definition highPending :: "task list \<Rightarrow> nat" where
  "highPending tasks =
     length (filter (\<lambda>t. priority t = Some ''high'' \<and> \<not> completed t) tasks)"

definition completedToday :: "(int \<Rightarrow> int) \<Rightarrow> int \<Rightarrow> task list \<Rightarrow> nat" where
  "completedToday localDay now tasks =
     length (filter (\<lambda>t. case completedAt t of None \<Rightarrow> False
                                | Some c \<Rightarrow> localDay c = localDay now) tasks)"

definition overdueMsg :: "nat \<Rightarrow> string" where
  "overdueMsg n =
     [CHR 0xE2, CHR 0x9A, CHR 0xA0, CHR 0xEF, CHR 0xB8, CHR 0x8F] @ '' You have '' @ show_nat n
     @ '' overdue task'' @ (if n > 1 then ''s'' else []) @ ''. Tackle them first!''"

definition highPendingMsg :: "nat \<Rightarrow> string" where
  "highPendingMsg n =
     [CHR 0xF0, CHR 0x9F, CHR 0x94, CHR 0xA5] @ '' '' @ show_nat n
     @ '' high-priority tasks pending. Consider time-blocking your day.''"

definition momentumMsg :: "nat \<Rightarrow> string" where
  "momentumMsg n =
     [CHR 0xF0, CHR 0x9F, CHR 0x8E, CHR 0x89] @ '' Great momentum! You've completed ''
     @ show_nat n @ '' tasks today.''"

definition allClearMsg :: string where
  "allClearMsg =
     [CHR 0xE2, CHR 0x9C, CHR 0xA8] @ '' All clear! Perfect time to plan ahead.''"

definition fallbackMsg :: string where
  "fallbackMsg =
     [CHR 0xF0, CHR 0x9F, CHR 0x92, CHR 0xA1]
     @ '' Try the 2-minute rule: if a task takes under 2 minutes, do it now.''"

definition getProductivityTip :: "(int \<Rightarrow> int) \<Rightarrow> int \<Rightarrow> task list \<Rightarrow> string" where
  "getProductivityTip localDay now tasks =
     (let overdue = overdueCount now tasks;
          highP = highPending tasks;
          doneToday = completedToday localDay now tasks
      in if overdue > 0 then overdueMsg overdue
         else if highP > 2 then highPendingMsg highP
         else if doneToday \<ge> 3 then momentumMsg doneToday
         else if length (filter (\<lambda>t. \<not> completed t) tasks) = 0 then allClearMsg
         else fallbackMsg)"

section \<open>AIEngine.getNotifications\<close>

record notification =
  ntask :: task
  ntype :: string
  msg :: string

text \<open>
  The callback of \<open>map\<close>: \<open>diff\<close> is the time to the deadline in hours; the result
  \<open>None\<close> is the callback's \<open>null\<close>. Without a deadline \<open>diff\<close> would be NaN and
  every comparison false.
\<close>

definition alertOf :: "int \<Rightarrow> task \<Rightarrow> notification option" where
  "alertOf now t =
     (case deadline t of
        None \<Rightarrow> None
      | Some d \<Rightarrow>
          (let diff = (of_int (d - now) :: rat) / 3600000
           in if diff < 0 then
                Some \<lparr>ntask = t, ntype = ''overdue'',
                      msg = quote @ title t @ quote @ '' is overdue!''\<rparr>
              else if diff < 24 then
                Some \<lparr>ntask = t, ntype = ''urgent'',
                      msg = quote @ title t @ quote @ '' due in ''
                            @ show_int (Math_round diff) @ ''h''\<rparr>
              else if diff < 72 then
                Some \<lparr>ntask = t, ntype = ''soon'',
                      msg = quote @ title t @ quote @ '' due in ''
                            @ show_int (Math_round (diff / 24)) @ ''d''\<rparr>
              else None))"

text \<open>\<open>filter(Boolean)\<close> on the callback's results drops the \<open>null\<close>s.\<close>

fun filter_Boolean :: "'a option list \<Rightarrow> 'a list" where
  "filter_Boolean [] = []"
| "filter_Boolean (None # xs) = filter_Boolean xs"
| "filter_Boolean (Some x # xs) = x # filter_Boolean xs"

definition getNotifications :: "int \<Rightarrow> task list \<Rightarrow> notification list" where
  "getNotifications now tasks =
     filter_Boolean
       (map (alertOf now) (filter (\<lambda>t. \<not> completed t \<and> deadline t \<noteq> None) tasks))"

section \<open>getAnalytics\<close>

record trendEntry =
  day :: string
  completed_d :: nat
  added :: nat

record priorityEntry =
  name :: string
  value_n :: nat
  color :: string

record analytics =
  completionTrend :: "trendEntry list"
  byPriority :: "priorityEntry list"
  total :: nat
  completed_n :: nat
  rate :: int

text \<open>
  \<open>last7\<close>: the seven local calendar days that end today, oldest first, as day
  numbers. The first word of \<open>toDateString()\<close> is the name of the weekday; day 0 was a
  Thursday.
\<close>

definition last7 :: "(int \<Rightarrow> int) \<Rightarrow> int \<Rightarrow> int list" where
  "last7 localDay now = map (\<lambda>i. localDay now - (6 - int i)) [0..<7]"

definition weekday :: "int \<Rightarrow> string" where
  "weekday d = [''Thu'', ''Fri'', ''Sat'', ''Sun'', ''Mon'', ''Tue'', ''Wed''] ! nat (d mod 7)"

definition getAnalytics :: "(int \<Rightarrow> int) \<Rightarrow> int \<Rightarrow> task list \<Rightarrow> analytics" where
  "getAnalytics localDay now tasks =
     (let trend = map (\<lambda>d.
            \<lparr>day = weekday d,
             completed_d = length (filter (\<lambda>t. case completedAt t of None \<Rightarrow> False
                                                   | Some c \<Rightarrow> localDay c = d) tasks),
             added = length (filter (\<lambda>t. localDay (createdAt t) = d) tasks)\<rparr>)
            (last7 localDay now);
          byP = [\<lparr>name = ''High'',
                   value_n = length (filter (\<lambda>t. priority t = Some ''high'') tasks),
                   color = ''#ef4444''\<rparr>,
                 \<lparr>name = ''Medium'',
                   value_n = length (filter (\<lambda>t. priority t = Some ''medium'') tasks),
                   color = ''#f59e0b''\<rparr>,
                 \<lparr>name = ''Low'',
                   value_n = length (filter (\<lambda>t. priority t = Some ''low'') tasks),
                   color = ''#10b981''\<rparr>];
          tot = length tasks;
          done = length (filter completed tasks);
          r = (if tot \<noteq> 0 then Math_round (percent done tot) else 0)
      in \<lparr>completionTrend = trend, byPriority = byP, total = tot, completed_n = done, rate = r\<rparr>)"

section \<open>Sample data\<close>

text \<open>
  The local calendar of a runtime in UTC, and tasks shaped like the seeded demo tasks,
  used to evaluate the functions on concrete inputs.
\<close>

definition utcDay :: "int \<Rightarrow> int" where
  "utcDay ms = ms div 86400000"

definition mkTask :: "string \<Rightarrow> string option \<Rightarrow> int option \<Rightarrow> rat option \<Rightarrow> bool \<Rightarrow> int option \<Rightarrow> task" where
  "mkTask i p d e c ca =
     \<lparr>ident = i, title = ''Task '' @ i, priority = p, deadline = d, estimatedTime = e,
      completed = c, createdAt = 0, completedAt = ca\<rparr>"

text \<open>A high-priority task due one day after time 0, a completed task, a low one.\<close>

definition t_high :: task where
  "t_high = mkTask ''t1'' (Some ''high'') (Some 86400000) (Some 4) False None"

definition t_done :: task where
  "t_done = mkTask ''t3'' (Some ''medium'') None (Some 1) True (Some 0)"

definition t_low :: task where
  "t_low = mkTask ''t4'' (Some ''low'') None (Some 3) False None"

text \<open>
  A task whose estimate was entered as -2 (the task form stores
  \<open>Number(estimatedTime) || 0\<close>), and the same task without estimate.
\<close>

definition t_neg :: task where
  "t_neg = mkTask ''t6'' (Some ''low'') None (Some (- 2)) False None"

definition t_plain :: task where
  "t_plain = mkTask ''t7'' (Some ''low'') None None False None"

text \<open>A task that was due one hour before time 0.\<close>

definition t_late :: task where
  "t_late = mkTask ''t8'' (Some ''low'') (Some (- 3600000)) None False None"

text \<open>
  A task with \<open>completedAt\<close> but \<open>completed = false\<close>, and a task with
  \<open>completed = true\<close>, no \<open>completedAt\<close> and a priority outside the three known.
\<close>

definition t_unflagged :: task where
  "t_unflagged = mkTask ''t9'' (Some ''low'') None None False (Some 0)"

definition t_flagged :: task where
  "t_flagged = mkTask ''t10'' (Some ''urgent'') None None True None"

text \<open>A task completed at time 0, and a collection with 23 of its 40 tasks completed.\<close>

definition t_today :: task where
  "t_today = mkTask ''t11'' (Some ''low'') None None True (Some 0)"


section \<open>The specification's quantities\<close>

text \<open>
  The score formula as the specification words it, over the rationals, for comparison
  with \<open>score\<close>. Where the divisor \<open>daysUntilDeadline + 1\<close> is zero the specification
  leaves urgency undefined.
\<close>

definition spec_priorityWeight :: "string option \<Rightarrow> rat" where
  "spec_priorityWeight p = (if p = Some ''high'' then 3 else if p = Some ''medium'' then 2 else 1)"

definition spec_daysUntilDeadline :: "int \<Rightarrow> int \<Rightarrow> rat" where
  "spec_daysUntilDeadline now d = of_int (d - now) / 86400000"

definition spec_urgency :: "int \<Rightarrow> task \<Rightarrow> rat" where
  "spec_urgency now t =
     (case deadline t of None \<Rightarrow> 0 | Some d \<Rightarrow> 1 / (spec_daysUntilDeadline now d + 1))"

definition spec_efficiency :: "task \<Rightarrow> rat" where
  "spec_efficiency t =
     (case estimatedTime t of None \<Rightarrow> 0 | Some e \<Rightarrow> if e > 0 then 1 / e else 0)"

definition spec_score :: "int \<Rightarrow> task \<Rightarrow> rat" where
  "spec_score now t =
     spec_priorityWeight (priority t) * (2 / 5) + spec_urgency now t * (2 / 5)
     + spec_efficiency t * (1 / 5)"


text \<open>The classifier's quantity: the time to the deadline in hours.\<close>

definition hoursUntilDeadline :: "int \<Rightarrow> int \<Rightarrow> rat" where
  "hoursUntilDeadline now d = of_int (d - now) / 3600000"

text \<open>
  The tip rules as the specification lists them. The conditions count tasks of the
  collection: the non-completed tasks whose deadline is strictly before now, the
  non-completed tasks of priority high, the tasks whose \<open>completedAt\<close> falls on
  today's local date, and the non-completed tasks. The rules are pairs of a condition
  and its message, in priority order; the first rule whose condition holds gives the
  tip, and the fallback message is the tip when none holds.
\<close>

definition spec_overdue :: "int \<Rightarrow> task \<Rightarrow> bool" where
  "spec_overdue now t = (\<not> completed t \<and> (\<exists>d. deadline t = Some d \<and> d < now))"

definition spec_highBacklog :: "task \<Rightarrow> bool" where
  "spec_highBacklog t = (\<not> completed t \<and> priority t = Some ''high'')"

definition spec_doneToday :: "(int \<Rightarrow> int) \<Rightarrow> int \<Rightarrow> task \<Rightarrow> bool" where
  "spec_doneToday localDay now t = (\<exists>c. completedAt t = Some c \<and> localDay c = localDay now)"

definition spec_open :: "task \<Rightarrow> bool" where
  "spec_open t = (\<not> completed t)"

definition spec_count :: "(task \<Rightarrow> bool) \<Rightarrow> task list \<Rightarrow> nat" where
  "spec_count P tasks = size (filter_mset P (mset tasks))"

fun first_match :: "(bool \<times> 'a) list \<Rightarrow> 'a \<Rightarrow> 'a" where
  "first_match [] dflt = dflt"
| "first_match ((c, m) # rs) dflt = (if c then m else first_match rs dflt)"

definition spec_tip_rules :: "(int \<Rightarrow> int) \<Rightarrow> int \<Rightarrow> task list \<Rightarrow> (bool \<times> string) list" where
  "spec_tip_rules localDay now tasks =
     [(0 < spec_count (spec_overdue now) tasks,
       overdueMsg (spec_count (spec_overdue now) tasks)),
      (2 < spec_count spec_highBacklog tasks,
       highPendingMsg (spec_count spec_highBacklog tasks)),
      (3 \<le> spec_count (spec_doneToday localDay now) tasks,
       momentumMsg (spec_count (spec_doneToday localDay now) tasks)),
      (spec_count spec_open tasks = 0, allClearMsg)]"

text \<open>A priority is recognised when it is one of the three the histogram has a bucket for.\<close>

definition recognised :: "task \<Rightarrow> bool" where
  "recognised t = (priority t \<in> {Some ''high'', Some ''medium'', Some ''low''})"

text \<open>The number of tasks whose \<open>completedAt\<close> falls on the local day \<open>d\<close>.\<close>

definition completedOn :: "(int \<Rightarrow> int) \<Rightarrow> int \<Rightarrow> task list \<Rightarrow> nat" where
  "completedOn localDay d tasks =
     length (filter (\<lambda>t. case completedAt t of None \<Rightarrow> False | Some c \<Rightarrow> localDay c = d) tasks)"

section \<open>The score formula\<close>





lemma efficiency_Fin: "\<exists>r. efficiency a = Fin r"
  by (auto simp: efficiency_def split: option.splits)


text \<open>
  With a deadline exactly one day in the past the divisor is zero and the score is
  \<open>+Infinity\<close>; with a priority that names an inherited property it is NaN.
\<close>

lemma score_day_ago:
  "deadline a = Some (now - 86400000) \<Longrightarrow> priorityWeight (priority a) = Fin w \<Longrightarrow> score now a = PInf"
  using efficiency_Fin [of a]
  by (auto simp: score_def urgency_def deadlineTime_def jsub_def inf_of_sign_def)

lemma score_inherited_key:
  "priority a = Some k \<Longrightarrow> k \<in> set protoKeys \<Longrightarrow> score now a = NaN"
  by (auto simp: score_def priorityWeight_def priorityScore_def protoKeys_def)

text \<open>
  C2 at a task with a negative estimated time: the claim's formula gives the efficiency
  term 0 and the score 1 * 0.4 = 0.4, the source's test \<open>a.estimatedTime ? ...\<close> is
  true for -2 and the score is 0.4 + (1 / -2) * 0.2 = 0.3.
\<close>

theorem score_negative_estimate:
  "score 0 t_neg = Fin (3 / 10) \<and> spec_score 0 t_neg = 2 / 5"
  by (simp add: score_def urgency_def deadlineTime_def efficiency_def priorityWeight_def
      priorityScore_def spec_score_def spec_urgency_def spec_efficiency_def
      spec_priorityWeight_def t_neg_def mkTask_def)

text \<open>A missing or zero estimated time contributes nothing; a negative one is divided.\<close>

lemma efficiency_missing_or_zero:
  "estimatedTime a = None \<or> estimatedTime a = Some 0 \<Longrightarrow> efficiency a = Fin 0"
  by (auto simp: efficiency_def)

lemma efficiency_negative:
  "estimatedTime a = Some e \<Longrightarrow> e < 0 \<Longrightarrow> efficiency a = Fin (1 / e) \<and> 1 / e < 0"
  by (auto simp: efficiency_def)

text \<open>
  C5 at a task with estimated time -2: the efficiency is -1/2 and its term in the score
  is -0.1, not 0, which ranks the task below an otherwise equal task without estimate.
\<close>

theorem efficiency_negative_estimate:
  "estimatedTime t_neg = Some (- 2) \<and> efficiency t_neg = Fin (- 1 / 2)
   \<and> jmul (efficiency t_neg) (Fin (1 / 5)) = Fin (- 1 / 10)
   \<and> suggestOrder 0 [t_neg, t_plain] = [t_plain, t_neg]"
  by (simp add: suggestOrder_def sort_by_def compareTasks_def score_def urgency_def
      deadlineTime_def efficiency_def priorityWeight_def priorityScore_def jsub_def
      t_neg_def t_plain_def mkTask_def)

section \<open>Ranking: permutation and order\<close>











section \<open>Repeated ranking\<close>

text \<open>
  Of two tasks at most one has to follow the other. So the result of a sort has no
  neighbours that have to be swapped, and sorting it again changes nothing.
\<close>

lemma compare_asym:
  "jlt (Fin 0) (compareTasks now a b) \<Longrightarrow> \<not> jlt (Fin 0) (compareTasks now b a)"
  by (cases "score now a"; cases "score now b") (auto simp: compareTasks_def jsub_def)

lemma successively_tail: "successively P (x # xs) \<Longrightarrow> successively P xs"
  by (cases xs) simp_all

lemma hd_insert_by:
  "hd (insert_by cmp x ys) = x \<or> (ys \<noteq> [] \<and> hd (insert_by cmp x ys) = hd ys \<and> jlt (Fin 0) (cmp x (hd ys)))"
  by (cases ys) auto

lemma settled_insert_by:
  "successively (\<lambda>a b. \<not> jlt (Fin 0) (compareTasks now a b)) ys
   \<Longrightarrow> successively (\<lambda>a b. \<not> jlt (Fin 0) (compareTasks now a b)) (insert_by (compareTasks now) x ys)"
proof (induction ys)
  case Nil
  show ?case by simp
next
  case (Cons y ys)
  show ?case
  proof (cases "jlt (Fin 0) (compareTasks now x y)")
    case True
    have ih: "successively (\<lambda>a b. \<not> jlt (Fin 0) (compareTasks now a b)) (insert_by (compareTasks now) x ys)"
      using Cons.prems by (intro Cons.IH) (rule successively_tail)
    have "\<not> jlt (Fin 0) (compareTasks now y (hd (insert_by (compareTasks now) x ys)))"
      using hd_insert_by [of "compareTasks now" x ys] Cons.prems compare_asym [OF True]
      by (auto simp: successively_Cons)
    with ih True show ?thesis by (simp add: successively_Cons)
  next
    case False
    with Cons.prems show ?thesis by (simp add: successively_Cons)
  qed
qed

lemma settled_sort_by:
  "successively (\<lambda>a b. \<not> jlt (Fin 0) (compareTasks now a b)) (sort_by (compareTasks now) xs)"
proof (induction xs)
  case Nil
  show ?case by (simp add: sort_by_def)
next
  case (Cons x xs)
  then show ?case
    using settled_insert_by [of now "sort_by (compareTasks now) xs" x] by (simp add: sort_by_def)
qed

lemma sort_by_settled_id:
  "successively (\<lambda>a b. \<not> jlt (Fin 0) (compareTasks now a b)) xs
   \<Longrightarrow> sort_by (compareTasks now) xs = xs"
proof (induction xs)
  case Nil
  show ?case by (simp add: sort_by_def)
next
  case (Cons x xs)
  have ih: "sort_by (compareTasks now) xs = xs"
    using Cons.prems by (intro Cons.IH) (rule successively_tail)
  have "insert_by (compareTasks now) x xs = x # xs"
    using Cons.prems by (cases xs) simp_all
  with ih show ?case by (simp add: sort_by_def)
qed

text \<open>
  C6. With \<open>now\<close> fixed, a call of \<open>suggestOrder\<close> leaves its argument array
  unchanged, and a second call on the same array returns an array with the same
  contents as the first, which the second call leaves unchanged too. Ranking a ranked
  result again returns it as it is.
\<close>

theorem suggestOrder_repeatable:
  "tasks < length st \<Longrightarrow>
     (case suggestOrder_st now tasks st of (r1, st1) \<Rightarrow>
        case suggestOrder_st now tasks st1 of (r2, st2) \<Rightarrow>
          st1 ! tasks = st ! tasks \<and> st2 ! tasks = st ! tasks
          \<and> st1 ! r1 = suggestOrder now (st ! tasks)
          \<and> st2 ! r2 = st1 ! r1 \<and> st2 ! r1 = st1 ! r1)
     \<and> suggestOrder now (suggestOrder now (st ! tasks)) = suggestOrder now (st ! tasks)"
  using settled_sort_by [of now "st ! tasks"]
  by (simp add: suggestOrder_st_def suggestOrder_def Let_def nth_append sort_by_settled_id)

text \<open>Two calls on a store that holds one array of two tasks.\<close>

theorem suggestOrder_repeatable_witness:
  "(0::nat) < length [[t_low, t_high]]
   \<and> (case suggestOrder_st 0 0 [[t_low, t_high]] of (r1, st1) \<Rightarrow>
        case suggestOrder_st 0 0 st1 of (r2, st2) \<Rightarrow>
          st1 ! 0 = [t_low, t_high] \<and> st2 ! r2 = st1 ! r1)"
  using suggestOrder_repeatable [of 0 "[[t_low, t_high]]" 0]
  by (simp add: split_def)

section \<open>Alerts\<close>

lemma filter_Boolean_append:
  "filter_Boolean (xs @ ys) = filter_Boolean xs @ filter_Boolean ys"
proof (induction xs)
  case Nil
  show ?case by simp
next
  case (Cons x xs)
  then show ?case by (cases x) simp_all
qed

lemma getNotifications_append:
  "getNotifications now (xs @ ys) = getNotifications now xs @ getNotifications now ys"
  by (simp add: getNotifications_def filter_Boolean_append)

lemma getNotifications_Cons:
  "getNotifications now (t # ts) = getNotifications now [t] @ getNotifications now ts"
  using getNotifications_append [of now "[t]" ts] by simp

lemma getNotifications_single:
  "getNotifications now [t] =
     (if completed t then [] else case alertOf now t of None \<Rightarrow> [] | Some n \<Rightarrow> [n])"
  by (auto simp: getNotifications_def alertOf_def split: option.splits)

lemma alertOf_task: "alertOf now t = Some n \<Longrightarrow> ntask n = t"
  by (auto simp: alertOf_def Let_def split: option.splits if_splits)

lemma getNotifications_single_task:
  "getNotifications now [t] = [] \<or> (\<exists>n. getNotifications now [t] = [n] \<and> ntask n = t)"
  by (auto simp: getNotifications_single dest: alertOf_task split: option.splits)

lemma map_ntask_getNotifications:
  "map ntask (getNotifications now tasks) = filter (\<lambda>t. getNotifications now [t] \<noteq> []) tasks"
proof (induction tasks)
  case Nil
  show ?case by (simp add: getNotifications_def)
next
  case (Cons t ts)
  from getNotifications_single_task [of now t] Cons show ?case
    by (subst getNotifications_Cons) auto
qed

text \<open>
  C3. A completed task and a task without deadline produce no alert. A non-completed
  task with a deadline produces at most one alert, decided by the hours to the deadline
  \<open>h\<close>: overdue iff \<open>h < 0\<close>, urgent iff \<open>0 \<le> h < 24\<close>, soon iff
  \<open>24 \<le> h < 72\<close>, and none iff \<open>72 \<le> h\<close>. Within a collection the task
  contributes exactly these alerts, whatever the other tasks are.
\<close>

theorem alert_classification:
  "(completed t \<or> deadline t = None \<longrightarrow> getNotifications now [t] = [])
   \<and> (\<not> completed t \<and> deadline t = Some d \<longrightarrow>
        (map ntype (getNotifications now [t]) = [''overdue''] \<longleftrightarrow> hoursUntilDeadline now d < 0)
      \<and> (map ntype (getNotifications now [t]) = [''urgent'']
           \<longleftrightarrow> 0 \<le> hoursUntilDeadline now d \<and> hoursUntilDeadline now d < 24)
      \<and> (map ntype (getNotifications now [t]) = [''soon'']
           \<longleftrightarrow> 24 \<le> hoursUntilDeadline now d \<and> hoursUntilDeadline now d < 72)
      \<and> (getNotifications now [t] = [] \<longleftrightarrow> 72 \<le> hoursUntilDeadline now d)
      \<and> length (getNotifications now [t]) \<le> 1)
   \<and> getNotifications now (xs @ t # ys) =
       getNotifications now xs @ getNotifications now [t] @ getNotifications now ys"
proof -
  have "getNotifications now (xs @ t # ys) =
       getNotifications now xs @ getNotifications now [t] @ getNotifications now ys"
    using getNotifications_append [of now xs "t # ys"] getNotifications_Cons [of now t ys]
    by simp
  then show ?thesis
    by (auto simp: getNotifications_single alertOf_def hoursUntilDeadline_def Let_def
        split: option.splits)
qed

text \<open>At exactly 24 hours the alert is soon, not urgent; a completed task has none.\<close>

theorem alert_classification_witness:
  "(completed t_done \<and> getNotifications 0 [t_done] = [])
   \<and> (\<not> completed t_high \<and> deadline t_high = Some 86400000
      \<and> hoursUntilDeadline 0 86400000 = 24
      \<and> map ntype (getNotifications 0 [t_high]) = [''soon''])"
  using alert_classification [where t = t_done and now = 0 and d = 0]
    alert_classification [where t = t_high and now = 0 and d = 86400000]
  by (simp add: t_done_def t_high_def mkTask_def hoursUntilDeadline_def)

text \<open>
  C7. The alerts come in input order: when \<open>a\<close> precedes \<open>b\<close> in the input, the
  alert of \<open>a\<close>, if any, precedes the alert of \<open>b\<close>, if any. The tasks of the
  alerts are the input tasks that produce an alert, in their input order.
\<close>

theorem notifications_keep_input_order:
  "getNotifications now (xs @ a # ys @ b # zs) =
     getNotifications now xs @ getNotifications now [a] @ getNotifications now ys
     @ getNotifications now [b] @ getNotifications now zs
   \<and> map ntask (getNotifications now tasks) = filter (\<lambda>t. getNotifications now [t] \<noteq> []) tasks
   \<and> subseq (map ntask (getNotifications now tasks)) tasks"
proof -
  have "getNotifications now (xs @ a # ys @ b # zs) =
     getNotifications now xs @ getNotifications now [a] @ getNotifications now ys
     @ getNotifications now [b] @ getNotifications now zs"
    using getNotifications_append [of now xs "a # ys @ b # zs"]
      getNotifications_Cons [of now a "ys @ b # zs"]
      getNotifications_append [of now ys "b # zs"]
      getNotifications_Cons [of now b zs]
    by simp
  moreover have "subseq (map ntask (getNotifications now tasks)) tasks"
    by (simp only: map_ntask_getNotifications subseq_filter_left)
  ultimately show ?thesis
    by (simp only: map_ntask_getNotifications simp_thms)
qed

section \<open>Tips\<close>

lemma length_filter_size: "length (filter P xs) = size (filter_mset P (mset xs))"
  by (metis mset_filter size_mset)

lemma overdueCount_spec: "overdueCount now tasks = spec_count (spec_overdue now) tasks"
proof -
  have "(\<lambda>t. (case deadline t of None \<Rightarrow> False | Some d \<Rightarrow> d < now) \<and> \<not> completed t)
        = spec_overdue now"
    by (auto simp: spec_overdue_def fun_eq_iff split: option.splits)
  then show ?thesis
    by (simp add: overdueCount_def spec_count_def length_filter_size)
qed

lemma highPending_spec: "highPending tasks = spec_count spec_highBacklog tasks"
proof -
  have "(\<lambda>t. priority t = Some ''high'' \<and> \<not> completed t) = spec_highBacklog"
    by (auto simp: spec_highBacklog_def fun_eq_iff)
  then show ?thesis
    by (simp add: highPending_def spec_count_def length_filter_size)
qed

lemma completedToday_spec:
  "completedToday localDay now tasks = spec_count (spec_doneToday localDay now) tasks"
proof -
  have "(\<lambda>t. case completedAt t of None \<Rightarrow> False | Some c \<Rightarrow> localDay c = localDay now)
        = spec_doneToday localDay now"
    by (auto simp: spec_doneToday_def fun_eq_iff split: option.splits)
  then show ?thesis
    by (simp add: completedToday_def spec_count_def length_filter_size)
qed

lemma open_spec: "length (filter (\<lambda>t. \<not> completed t) tasks) = spec_count spec_open tasks"
proof -
  have "(\<lambda>t. \<not> completed t) = spec_open" by (simp add: spec_open_def fun_eq_iff)
  then show ?thesis by (simp add: spec_count_def length_filter_size)
qed

lemma tip_nonempty: "getProductivityTip localDay now tasks \<noteq> []"
  by (simp add: getProductivityTip_def Let_def overdueMsg_def highPendingMsg_def
      momentumMsg_def allClearMsg_def fallbackMsg_def)

lemma tip_first_match:
  "getProductivityTip localDay now tasks
   = first_match (spec_tip_rules localDay now tasks) fallbackMsg"
  by (simp add: getProductivityTip_def spec_tip_rules_def Let_def
      overdueCount_spec highPending_spec completedToday_spec open_spec)

lemma messages_distinct:
  "distinct [overdueMsg i, highPendingMsg j, momentumMsg k, allClearMsg, fallbackMsg]"
  by (simp add: overdueMsg_def highPendingMsg_def momentumMsg_def allClearMsg_def fallbackMsg_def)

lemma spec_count_pos: "t \<in> set tasks \<Longrightarrow> P t \<Longrightarrow> 0 < spec_count P tasks"
proof -
  assume "t \<in> set tasks" "P t"
  then have "t \<in> set (filter P tasks)" by simp
  then have "0 < length (filter P tasks)" by (simp only: length_pos_if_in_set)
  then show ?thesis by (simp add: spec_count_def length_filter_size)
qed

text \<open>
  C4. The tip is a non-empty string, and it is the message of the first of the
  specification's rules whose condition holds on the collection (a non-completed task
  past its deadline; more than two non-completed tasks of priority high; at least three
  tasks completed today; no non-completed task), or the fallback. The messages of
  different rules differ, whatever the counts. A collection with a non-completed task
  whose deadline is before now and with more than two non-completed high-priority tasks
  gets the overdue message.
\<close>

theorem tip_total_first_match:
  "getProductivityTip localDay now tasks \<noteq> []
   \<and> getProductivityTip localDay now tasks
       = first_match (spec_tip_rules localDay now tasks) fallbackMsg
   \<and> distinct [overdueMsg i, highPendingMsg j, momentumMsg k, allClearMsg, fallbackMsg]
   \<and> ((\<exists>t \<in> set tasks. spec_overdue now t) \<and> 2 < spec_count spec_highBacklog tasks
      \<longrightarrow> getProductivityTip localDay now tasks
          = overdueMsg (spec_count (spec_overdue now) tasks))"
proof -
  have "getProductivityTip localDay now tasks = overdueMsg (spec_count (spec_overdue now) tasks)"
    if "\<exists>t \<in> set tasks. spec_overdue now t"
  proof -
    from that obtain t where "t \<in> set tasks" "spec_overdue now t" by blast
    then have "0 < spec_count (spec_overdue now) tasks" by (rule spec_count_pos)
    then show ?thesis by (simp add: tip_first_match spec_tip_rules_def)
  qed
  with tip_nonempty [of localDay now tasks] tip_first_match [of localDay now tasks]
    messages_distinct [of i j k]
  show ?thesis by blast
qed

text \<open>
  One overdue task with three pending high-priority tasks: the overdue message. Without
  the overdue task: the backlog message. Three tasks completed today: the momentum
  message. No task: all clear. One pending task: the fallback.
\<close>

theorem tip_total_first_match_witness:
  "spec_overdue 0 t_late
   \<and> 2 < spec_count spec_highBacklog [t_late, t_high, t_high, t_high]
   \<and> getProductivityTip utcDay 0 [t_late, t_high, t_high, t_high] = overdueMsg 1
   \<and> getProductivityTip utcDay 0 [t_high, t_high, t_high] = highPendingMsg 3
   \<and> getProductivityTip utcDay 0 [t_today, t_today, t_today] = momentumMsg 3
   \<and> getProductivityTip utcDay 0 [] = allClearMsg
   \<and> getProductivityTip utcDay 0 [t_low] = fallbackMsg"
proof -
  let ?L = "[t_late, t_high, t_high, t_high]"
  have h1: "spec_overdue 0 t_late"
    by (simp add: spec_overdue_def t_late_def mkTask_def)
  have h2: "2 < spec_count spec_highBacklog ?L"
    by (simp add: spec_count_def spec_highBacklog_def t_late_def t_high_def mkTask_def)
  have n: "spec_count (spec_overdue 0) ?L = 1"
    by (simp add: spec_count_def spec_overdue_def t_late_def t_high_def mkTask_def)
  from h1 have "\<exists>t \<in> set ?L. spec_overdue 0 t" by simp
  with tip_total_first_match [of utcDay 0 ?L] h2
  have "getProductivityTip utcDay 0 ?L = overdueMsg (spec_count (spec_overdue 0) ?L)"
    by blast
  then have a: "getProductivityTip utcDay 0 ?L = overdueMsg 1" by (simp only: n)
  have b: "getProductivityTip utcDay 0 [t_high, t_high, t_high] = highPendingMsg 3"
  proof -
    have "first_match (spec_tip_rules utcDay 0 [t_high, t_high, t_high]) fallbackMsg = highPendingMsg 3"
      by (simp add: spec_tip_rules_def spec_count_def spec_overdue_def spec_highBacklog_def
          spec_doneToday_def spec_open_def t_high_def mkTask_def numeral_3_eq_3)
    with tip_total_first_match [of utcDay 0 "[t_high, t_high, t_high]"] show ?thesis by (simp only:)
  qed
  have c: "getProductivityTip utcDay 0 [t_today, t_today, t_today] = momentumMsg 3"
  proof -
    have "first_match (spec_tip_rules utcDay 0 [t_today, t_today, t_today]) fallbackMsg = momentumMsg 3"
      by (simp add: spec_tip_rules_def spec_count_def spec_overdue_def spec_highBacklog_def
          spec_doneToday_def spec_open_def t_today_def mkTask_def numeral_3_eq_3)
    with tip_total_first_match [of utcDay 0 "[t_today, t_today, t_today]"] show ?thesis by (simp only:)
  qed
  have d: "getProductivityTip utcDay 0 [] = allClearMsg"
  proof -
    have "first_match (spec_tip_rules utcDay 0 []) fallbackMsg = allClearMsg"
      by (simp add: spec_tip_rules_def spec_count_def spec_overdue_def spec_highBacklog_def
          spec_doneToday_def spec_open_def mkTask_def numeral_3_eq_3)
    with tip_total_first_match [of utcDay 0 "[]"] show ?thesis by (simp only:)
  qed
  have e: "getProductivityTip utcDay 0 [t_low] = fallbackMsg"
  proof -
    have "first_match (spec_tip_rules utcDay 0 [t_low]) fallbackMsg = fallbackMsg"
      by (simp add: spec_tip_rules_def spec_count_def spec_overdue_def spec_highBacklog_def
          spec_doneToday_def spec_open_def t_low_def mkTask_def numeral_3_eq_3)
    with tip_total_first_match [of utcDay 0 "[t_low]"] show ?thesis by (simp only:)
  qed
  from h1 h2 a b c d e show ?thesis by blast
qed

section \<open>Rounding to double precision\<close>










lemma ulp_pos: "(0::rat) < 2 powi e"
  by simp


















section \<open>Analytics\<close>








lemma three_buckets:
  "length (filter (\<lambda>t. priority t = Some ''high'') tasks)
   + (length (filter (\<lambda>t. priority t = Some ''medium'') tasks)
      + length (filter (\<lambda>t. priority t = Some ''low'') tasks))
   = length (filter recognised tasks)"
  by (induction tasks) (auto simp: recognised_def)

lemma filter_all: "(\<forall>x \<in> set xs. P x) \<Longrightarrow> length (filter P xs) = length xs"
  by (induction xs) auto

text \<open>
  C9. The histogram has the three buckets High, Medium and Low, each with the number
  of tasks of that priority. The buckets add up to the number of tasks with a recognised
  priority, so to at most \<open>total\<close>, and to \<open>total\<close> when every priority is
  recognised.
\<close>

theorem priority_histogram:
  "map name (byPriority (getAnalytics localDay now tasks)) = [''High'', ''Medium'', ''Low'']
   \<and> map value_n (byPriority (getAnalytics localDay now tasks)) =
       [size (filter_mset (\<lambda>t. priority t = Some ''high'') (mset tasks)),
        size (filter_mset (\<lambda>t. priority t = Some ''medium'') (mset tasks)),
        size (filter_mset (\<lambda>t. priority t = Some ''low'') (mset tasks))]
   \<and> sum_list (map value_n (byPriority (getAnalytics localDay now tasks)))
       = size (filter_mset recognised (mset tasks))
   \<and> sum_list (map value_n (byPriority (getAnalytics localDay now tasks)))
       \<le> total (getAnalytics localDay now tasks)
   \<and> ((\<forall>t \<in> set tasks. recognised t)
      \<longrightarrow> sum_list (map value_n (byPriority (getAnalytics localDay now tasks)))
          = total (getAnalytics localDay now tasks))"
proof -
  have le: "length (filter recognised tasks) \<le> length tasks" by simp
  have eq: "length (filter recognised tasks) = length tasks" if "\<forall>t \<in> set tasks. recognised t"
    using that by (rule filter_all)
  show ?thesis
    using three_buckets [of tasks] le eq
    by (simp add: getAnalytics_def Let_def length_filter_size [symmetric])
qed

text \<open>
  Three recognised tasks fill the buckets with 3; of a task with priority
  \<open>urgent\<close> and a low task only the low one is counted.
\<close>

theorem priority_histogram_witness:
  "recognised t_high \<and> recognised t_low \<and> recognised t_done
   \<and> sum_list (map value_n (byPriority (getAnalytics utcDay 0 [t_high, t_low, t_done]))) = 3
   \<and> sum_list (map value_n (byPriority (getAnalytics utcDay 0 [t_flagged, t_low]))) = 1"
proof -
  have h: "\<forall>t \<in> set [t_high, t_low, t_done]. recognised t"
    by (simp add: recognised_def t_high_def t_low_def t_done_def mkTask_def)
  have t: "total (getAnalytics utcDay 0 [t_high, t_low, t_done]) = 3"
    by (simp add: getAnalytics_def Let_def)
  have r: "size (filter_mset recognised (mset [t_flagged, t_low])) = 1"
    by (simp add: recognised_def t_flagged_def t_low_def mkTask_def)
  from priority_histogram [of utcDay 0 "[t_high, t_low, t_done]"] h
  have "sum_list (map value_n (byPriority (getAnalytics utcDay 0 [t_high, t_low, t_done])))
        = total (getAnalytics utcDay 0 [t_high, t_low, t_done])"
    by blast
  with t have a: "sum_list (map value_n (byPriority (getAnalytics utcDay 0 [t_high, t_low, t_done]))) = 3"
    by (simp only:)
  from priority_histogram [of utcDay 0 "[t_flagged, t_low]"]
  have "sum_list (map value_n (byPriority (getAnalytics utcDay 0 [t_flagged, t_low])))
        = size (filter_mset recognised (mset [t_flagged, t_low]))"
    by blast
  with r have b: "sum_list (map value_n (byPriority (getAnalytics utcDay 0 [t_flagged, t_low]))) = 1"
    by (simp only:)
  from h a b show ?thesis by simp
qed

lemma last7_eq:
  "last7 localDay now =
     [localDay now - 6, localDay now - 5, localDay now - 4, localDay now - 3,
      localDay now - 2, localDay now - 1, localDay now]"
  by (simp add: last7_def upt_rec)

lemma trend_completed:
  "map completed_d (completionTrend (getAnalytics localDay now tasks)) =
     map (\<lambda>d. completedOn localDay d tasks) (last7 localDay now)"
  by (simp add: getAnalytics_def Let_def completedOn_def comp_def)

lemma completedOn_flags:
  "completedOn localDay d (map (\<lambda>t. t\<lparr>completed := f t\<rparr>) tasks) = completedOn localDay d tasks"
  by (induction tasks) (auto simp: completedOn_def)

lemma completedToday_on: "completedToday localDay now tasks = completedOn localDay (localDay now) tasks"
  by (simp add: completedToday_def completedOn_def)

lemma trend_nonempty: "completionTrend (getAnalytics localDay now tasks) \<noteq> []"
  by (simp add: getAnalytics_def Let_def last7_eq)

lemma trend_today:
  "completed_d (last (completionTrend (getAnalytics localDay now tasks))) =
     completedOn localDay (localDay now) tasks"
proof -
  have "completed_d (last (completionTrend (getAnalytics localDay now tasks)))
        = last (map completed_d (completionTrend (getAnalytics localDay now tasks)))"
    using trend_nonempty [of localDay now tasks] by (simp add: last_map)
  then show ?thesis by (simp add: trend_completed last7_eq)
qed

text \<open>
  C10. The tip's count of tasks completed today and the trend's count of completed
  tasks per day read \<open>completedAt\<close> only: rewriting the \<open>completed\<close> flags of
  the collection changes neither. A task with \<open>completedAt\<close> on today's date and
  \<open>completed = false\<close> adds one to today's counts; a task with
  \<open>completed = true\<close> and no \<open>completedAt\<close> adds nothing.
\<close>

theorem completion_counts_from_completedAt:
  "completedToday localDay now (map (\<lambda>t. t\<lparr>completed := f t\<rparr>) tasks) = completedToday localDay now tasks
   \<and> map completed_d (completionTrend (getAnalytics localDay now (map (\<lambda>t. t\<lparr>completed := f t\<rparr>) tasks)))
       = map completed_d (completionTrend (getAnalytics localDay now tasks))
   \<and> (completedAt t = Some c \<and> localDay c = localDay now \<and> \<not> completed t
      \<longrightarrow> completedToday localDay now (t # tasks) = Suc (completedToday localDay now tasks)
        \<and> completed_d (last (completionTrend (getAnalytics localDay now (t # tasks))))
            = Suc (completed_d (last (completionTrend (getAnalytics localDay now tasks)))))
   \<and> (completed t \<and> completedAt t = None
      \<longrightarrow> completedToday localDay now (t # tasks) = completedToday localDay now tasks
        \<and> map completed_d (completionTrend (getAnalytics localDay now (t # tasks)))
            = map completed_d (completionTrend (getAnalytics localDay now tasks)))"
  by (simp add: completedToday_on trend_today trend_completed completedOn_flags)
     (simp add: completedOn_def)

text \<open>Both cases on single tasks.\<close>

theorem completion_counts_from_completedAt_witness:
  "(completedAt t_unflagged = Some 0 \<and> utcDay 0 = utcDay 0 \<and> \<not> completed t_unflagged
      \<and> completedToday utcDay 0 [t_unflagged] = Suc (completedToday utcDay 0 []))
   \<and> (completed t_flagged \<and> completedAt t_flagged = None 
      \<and> completedToday utcDay 0 [t_flagged] = completedToday utcDay 0 [])"
  using completion_counts_from_completedAt [where t = t_unflagged and c = 0 and localDay = utcDay and now = 0 and tasks = "[]"]
   completion_counts_from_completedAt [where t = t_flagged and localDay = utcDay and now = 0 and tasks = "[]"]
  by (simp add: t_unflagged_def t_flagged_def mkTask_def)

end
